theory Spec2Isabelle
  imports
    Complex_Main
    "HOL-Library.AList"
    "HOL-Library.Sublist"
    "HOL-Library.Char_ord"
    "HOL-Library.List_Lexorder"
begin

text \<open>
  A model of the GAIA Station integration for Home Assistant: the transport client that
  fetches the device's JSON (\<^verbatim>\<open>api.py\<close>), the coordinator that stores the payload and
  flattens it (\<^verbatim>\<open>coordinator.py\<close>), and the sensor catalog built from the flat map
  (\<^verbatim>\<open>sensor.py\<close>). Exceptions are values: a function that can raise returns \<open>exn + 'a\<close>,
  with \<open>Inl\<close> for the exception that leaves it.
\<close>

section \<open>JSON values and Python dictionaries\<close>

text \<open>
  The device answers with a JSON document; \<^verbatim>\<open>json.loads\<close> turns it into Python values.
  A Python \<^verbatim>\<open>dict\<close> keeps its keys in insertion order, so a dictionary is an association
  list: \<^verbatim>\<open>d.get(k)\<close> and \<^verbatim>\<open>k in d\<close> are \<^const>\<open>map_of\<close>, \<^verbatim>\<open>d.items()\<close> is the list itself and
  \<^verbatim>\<open>d[k] = v\<close> is \<^const>\<open>AList.update\<close> (replace in place, else append). Floats are only
  carried from the payload to the flat map, never computed with, so a real number stands
  for them.
\<close>

datatype json =
    JNull
  | JBool bool
  | JInt int
  | JFloat real
  | JStr string
  | JList "json list"
  | JDict "(string \<times> json) list"

type_synonym 'v dict = "(string \<times> 'v) list"

text \<open>The name Python prints for the type of a decoded JSON value.\<close>

fun type_name :: "json \<Rightarrow> string" where
  "type_name JNull = ''NoneType''"
| "type_name (JBool _) = ''bool''"
| "type_name (JInt _) = ''int''"
| "type_name (JFloat _) = ''float''"
| "type_name (JStr _) = ''str''"
| "type_name (JList _) = ''list''"
| "type_name (JDict _) = ''dict''"

section \<open>Exceptions\<close>

text \<open>
  The exception classes that can travel through \<^verbatim>\<open>api.py\<close> and \<^verbatim>\<open>coordinator.py\<close>. The three
  \<^verbatim>\<open>GaiaStation...\<close> classes are declared in \<^verbatim>\<open>api.py\<close>; the others belong to Python
  (3.11 or later, where \<^verbatim>\<open>asyncio.TimeoutError\<close> is the builtin \<^verbatim>\<open>TimeoutError\<close>), to
  \<^verbatim>\<open>json\<close>, to \<^verbatim>\<open>aiohttp\<close> and to the host. \<open>bases\<close> lists the direct base classes, and
  an \<^verbatim>\<open>except C\<close> clause catches an exception whose class is \<open>C\<close> or inherits from it.
\<close>

datatype exc_class =
    Exception
  | OSError
  | TimeoutError
  | ValueError
  | JSONDecodeError
  | AttributeError
  | ClientError
  | ClientResponseError
  | ClientConnectionError
  | ClientOSError
  | ClientConnectorError
  | ClientConnectorDNSError
  | ServerConnectionError
  | ServerDisconnectedError
  | ServerTimeoutError
  | ClientPayloadError
  | GaiaStationApiError
  | GaiaStationConnectionError
  | GaiaStationTimeoutError
  | HomeAssistantError
  | UpdateFailed

fun bases :: "exc_class \<Rightarrow> exc_class list" where
  "bases Exception = []"
| "bases OSError = [Exception]"
| "bases TimeoutError = [OSError]"
| "bases ValueError = [Exception]"
| "bases JSONDecodeError = [ValueError]"
| "bases AttributeError = [Exception]"
| "bases ClientError = [Exception]"
| "bases ClientResponseError = [ClientError]"
| "bases ClientConnectionError = [ClientError]"
| "bases ClientOSError = [ClientConnectionError, OSError]"
| "bases ClientConnectorError = [ClientOSError]"
| "bases ClientConnectorDNSError = [ClientConnectorError]"
| "bases ServerConnectionError = [ClientConnectionError]"
| "bases ServerDisconnectedError = [ServerConnectionError]"
| "bases ServerTimeoutError = [ServerConnectionError, TimeoutError]"
| "bases ClientPayloadError = [ClientError]"
| "bases GaiaStationApiError = [Exception]"
| "bases GaiaStationConnectionError = [GaiaStationApiError]"
| "bases GaiaStationTimeoutError = [GaiaStationApiError]"
| "bases HomeAssistantError = [Exception]"
| "bases UpdateFailed = [HomeAssistantError]"

text \<open>
  The inheritance chains above are at most five classes long, so five rounds of \<open>bases\<close>
  reach every ancestor.
\<close>

fun ancestors :: "nat \<Rightarrow> exc_class \<Rightarrow> exc_class list" where
  "ancestors 0 c = [c]"
| "ancestors (Suc n) c = c # concat (map (ancestors n) (bases c))"

definition issubclass :: "exc_class \<Rightarrow> exc_class \<Rightarrow> bool" where
  "issubclass c d = (d \<in> set (ancestors 5 c))"

text \<open>
  A raised exception: its class, \<^verbatim>\<open>str(err)\<close>, and the \<^verbatim>\<open>status\<close> attribute that
  \<^verbatim>\<open>aiohttp.ClientResponseError\<close> carries (0 where the class has none).
\<close>

datatype exn = Exn (exn_class: exc_class) (exn_str: string) (exn_status: nat)

definition isinstance :: "exn \<Rightarrow> exc_class \<Rightarrow> bool" where
  "isinstance e c = issubclass (exn_class e) c"

section \<open>The flattening transform (coordinator.py)\<close>

text \<open>
  The tuple \<^verbatim>\<open>("latest", "mean", "median", "min", "max", "stddev", "samples")\<close> is written
  out four times in \<^verbatim>\<open>_flatten_data\<close>, each time around the same loop body: if the stat key
  is in the block, store its value in \<^verbatim>\<open>flat\<close> under \<^verbatim>\<open>f"{prefix}_{stat_key}"\<close>.
\<close>

definition STAT_KEYS :: "string list" where
  "STAT_KEYS = [''latest'', ''mean'', ''median'', ''min'', ''max'', ''stddev'', ''samples'']"

definition PARTICLE_TYPES :: "string list" where
  "PARTICLE_TYPES = [''pm25'', ''pm1'', ''pm10'']"

definition stat_step :: "string \<Rightarrow> json dict \<Rightarrow> string \<Rightarrow> json dict \<Rightarrow> json dict" where
  "stat_step pfx block stat_key flat =
     (case map_of block stat_key of
        Some v \<Rightarrow> AList.update (pfx @ ''_'' @ stat_key) v flat
      | None \<Rightarrow> flat)"

definition emit_stats :: "string \<Rightarrow> json dict \<Rightarrow> json dict \<Rightarrow> json dict" where
  "emit_stats pfx block flat = fold (stat_step pfx block) STAT_KEYS flat"

text \<open>
  The loop over \<^verbatim>\<open>("pm25", "pm1", "pm10")\<close>, used for every sensor group and, with the
  group name \<^verbatim>\<open>rolling\<close>, for the rolling averages: a channel that is missing or not a
  dict is skipped.
\<close>

definition particle_step :: "string \<Rightarrow> json dict \<Rightarrow> string \<Rightarrow> json dict \<Rightarrow> json dict" where
  "particle_step group_key group_data particle_type flat =
     (case map_of group_data particle_type of
        Some (JDict particle_data) \<Rightarrow>
          emit_stats (group_key @ ''_'' @ particle_type) particle_data flat
      | _ \<Rightarrow> flat)"

definition emit_particles :: "string \<Rightarrow> json dict \<Rightarrow> json dict \<Rightarrow> json dict" where
  "emit_particles group_key group_data flat =
     fold (particle_step group_key group_data) PARTICLE_TYPES flat"

text \<open>\<^verbatim>\<open>for group_key, group_data in pms.items()\<close>: one step for one item.\<close>

definition group_step :: "string \<times> json \<Rightarrow> json dict \<Rightarrow> json dict" where
  "group_step item flat =
     (case item of (group_key, group_data) \<Rightarrow>
        if group_key \<in> set [''historic'', ''rolling''] then flat
        else (case group_data of
                JDict gd \<Rightarrow> emit_particles group_key gd flat
              | _ \<Rightarrow> flat))"

definition flatten_groups :: "json dict \<Rightarrow> json dict \<Rightarrow> json dict" where
  "flatten_groups pms flat = fold group_step pms flat"

text \<open>\<^verbatim>\<open>rolling_pms = pms.get("rolling", {})\<close> and the loop guarded by \<^verbatim>\<open>isinstance\<close>.\<close>

definition flatten_rolling :: "json dict \<Rightarrow> json dict \<Rightarrow> json dict" where
  "flatten_rolling pms flat =
     (case (case map_of pms ''rolling'' of None \<Rightarrow> JDict [] | Some v \<Rightarrow> v) of
        JDict rolling_pms \<Rightarrow> emit_particles ''rolling'' rolling_pms flat
      | _ \<Rightarrow> flat)"

definition flatten_co2 :: "json dict \<Rightarrow> json dict \<Rightarrow> json dict" where
  "flatten_co2 data flat =
     (case (case map_of data ''co2'' of None \<Rightarrow> JDict [] | Some v \<Rightarrow> v) of
        JDict co2 \<Rightarrow>
          (case map_of co2 ''rolling'' of
             Some (JDict co2_rolling) \<Rightarrow> emit_stats ''co2'' co2_rolling flat
           | _ \<Rightarrow> flat)
      | _ \<Rightarrow> flat)"

text \<open>
  Under \<^verbatim>\<open>met\<close> a value is a stats dict or a bare number. \<^verbatim>\<open>isinstance(x, (int, float))\<close>
  also holds for \<^verbatim>\<open>True\<close> and \<^verbatim>\<open>False\<close>, \<^verbatim>\<open>bool\<close> being a subclass of \<^verbatim>\<open>int\<close>.
\<close>

definition met_step :: "json dict \<Rightarrow> string \<Rightarrow> json dict \<Rightarrow> json dict" where
  "met_step met met_type flat =
     (case map_of met met_type of
        Some (JDict met_data) \<Rightarrow> emit_stats met_type met_data flat
      | Some (JInt n) \<Rightarrow> AList.update (met_type @ ''_latest'') (JInt n) flat
      | Some (JFloat x) \<Rightarrow> AList.update (met_type @ ''_latest'') (JFloat x) flat
      | Some (JBool b) \<Rightarrow> AList.update (met_type @ ''_latest'') (JBool b) flat
      | _ \<Rightarrow> flat)"

definition flatten_met :: "json dict \<Rightarrow> json dict \<Rightarrow> json dict" where
  "flatten_met data flat =
     (case (case map_of data ''met'' of None \<Rightarrow> JDict [] | Some v \<Rightarrow> v) of
        JDict met \<Rightarrow> fold (met_step met) [''temperature'', ''humidity''] flat
      | _ \<Rightarrow> flat)"

definition SYS_KEYS :: "string list" where
  "SYS_KEYS = [''boot'', ''vpwr'', ''heap'', ''alive'', ''time'']"

definition sys_step :: "json dict \<Rightarrow> string \<Rightarrow> json dict \<Rightarrow> json dict" where
  "sys_step sys_data k flat =
     (case map_of sys_data k of
        Some v \<Rightarrow> AList.update (''sys_'' @ k) v flat
      | None \<Rightarrow> flat)"

definition flatten_sys :: "json dict \<Rightarrow> json dict \<Rightarrow> json dict" where
  "flatten_sys data flat =
     (case (case map_of data ''sys'' of None \<Rightarrow> JDict [] | Some v \<Rightarrow> v) of
        JDict sys_data \<Rightarrow> fold (sys_step sys_data) SYS_KEYS flat
      | _ \<Rightarrow> flat)"

text \<open>
  \<^verbatim>\<open>_flatten_data\<close>. \<^verbatim>\<open>pms = data.get("pms", {})\<close> is used at once as a dict, in
  \<^verbatim>\<open>pms.items()\<close>: a value of any other type has no such attribute and Python raises
  \<^verbatim>\<open>AttributeError\<close> there, before anything is returned. The method reads no attribute
  of the coordinator and writes none; its debug log line is left out.
\<close>

definition no_attribute :: "json \<Rightarrow> string \<Rightarrow> exn" where
  "no_attribute v attr =
     Exn AttributeError
       ([CHR 0x27] @ type_name v @ [CHR 0x27] @ '' object has no attribute ''
          @ [CHR 0x27] @ attr @ [CHR 0x27]) 0"

definition flatten_data :: "json dict \<Rightarrow> exn + json dict" where
  "flatten_data data =
     (case (case map_of data ''pms'' of None \<Rightarrow> JDict [] | Some v \<Rightarrow> v) of
        JDict pms \<Rightarrow>
          Inr (flatten_sys data (flatten_met data (flatten_co2 data
                 (flatten_rolling pms (flatten_groups pms [])))))
      | other \<Rightarrow> Inl (no_attribute other ''items''))"

section \<open>The transport client (api.py)\<close>

text \<open>Decimal digits of a number, as an f-string prints an \<^verbatim>\<open>int\<close>.\<close>

fun str_nat :: "nat \<Rightarrow> string" where
  "str_nat n =
     (if n < 10 then [char_of (48 + n)]
      else str_nat (n div 10) @ [char_of (48 + n mod 10)])"

declare str_nat.simps [simp del]

text \<open>\<^verbatim>\<open>repr\<close> of a string without quotes, backslashes or control characters.\<close>

definition quoted :: "string \<Rightarrow> string" where
  "quoted s = [CHR 0x27] @ s @ [CHR 0x27]"

text \<open>
  What the network does during one call is an input of the model. Either
  \<^verbatim>\<open>session.get\<close> raises inside the \<^verbatim>\<open>async_timeout.timeout(10)\<close> block (the timeout
  expiring there is the exception \<^verbatim>\<open>TimeoutError\<close>), or a response arrives: a status
  line, a content type, and a body that \<^verbatim>\<open>await response.text()\<close> either returns or
  fails to read. With \<^verbatim>\<open>allow_redirects=False\<close> a 3xx response is handed over as it is.
\<close>

record response =
  resp_status :: nat
  resp_reason :: string
  resp_content_type :: string
  resp_text :: "exn + string"

datatype transport = GetRaised exn | Response response

text \<open>
  \<^verbatim>\<open>aiohttp.ClientResponse.raise_for_status\<close>: it raises \<^verbatim>\<open>ClientResponseError\<close> unless
  \<^verbatim>\<open>response.ok\<close>, and \<^verbatim>\<open>ok\<close> is \<^verbatim>\<open>400 > self.status\<close>.
\<close>

definition raise_for_status :: "string \<Rightarrow> response \<Rightarrow> exn + unit" where
  "raise_for_status url r =
     (if 400 > resp_status r then Inr ()
      else Inl (Exn ClientResponseError
                  (str_nat (resp_status r) @ '', message='' @ quoted (resp_reason r)
                     @ '', url='' @ quoted url)
                  (resp_status r)))"

text \<open>
  \<^verbatim>\<open>json.loads\<close> is a parameter: it returns the decoded value, or the text of the
  \<^verbatim>\<open>JSONDecodeError\<close> it raises. The inner \<^verbatim>\<open>try\<close> of \<^verbatim>\<open>async_get_data\<close> has one handler,
  for \<^verbatim>\<open>json.JSONDecodeError\<close>; everything else raised in its body passes through.
\<close>

type_synonym loads = "string \<Rightarrow> string + json"

definition decode_body :: "loads \<Rightarrow> string \<Rightarrow> exn + json dict" where
  "decode_body json_loads body =
     (case json_loads body of
        Inl m \<Rightarrow> Inl (Exn JSONDecodeError m 0)
      | Inr (JDict d) \<Rightarrow> Inr d
      | Inr v \<Rightarrow>
          Inl (Exn ValueError
                 (''Expected dict, got <class '' @ quoted (type_name v) @ ''>'') 0))"

definition decode :: "loads \<Rightarrow> string \<Rightarrow> string \<Rightarrow> exn + json dict" where
  "decode json_loads url body =
     (case decode_body json_loads body of
        Inr d \<Rightarrow> Inr d
      | Inl err \<Rightarrow>
          if isinstance err JSONDecodeError
          then Inl (Exn GaiaStationApiError
                      (''Invalid JSON response from '' @ url @ '': '' @ exn_str err) 0)
          else Inl err)"

text \<open>The body of the outer \<^verbatim>\<open>try\<close>.\<close>

definition request :: "loads \<Rightarrow> string \<Rightarrow> transport \<Rightarrow> exn + json dict" where
  "request json_loads url tr =
     (case tr of
        GetRaised e \<Rightarrow> Inl e
      | Response r \<Rightarrow>
          (case raise_for_status url r of
             Inl e \<Rightarrow> Inl e
           | Inr _ \<Rightarrow>
               (case resp_text r of
                  Inl e \<Rightarrow> Inl e
                | Inr body \<Rightarrow> decode json_loads url body)))"

text \<open>
  \<^verbatim>\<open>async_get_data\<close>: the four \<^verbatim>\<open>except\<close> clauses are tried in the order they are written,
  and an exception none of them matches leaves the function as it is.
\<close>

definition async_get_data :: "loads \<Rightarrow> string \<Rightarrow> string \<Rightarrow> transport \<Rightarrow> exn + json dict" where
  "async_get_data json_loads host endpoint tr =
     (let url = ''http://'' @ host @ endpoint in
      case request json_loads url tr of
        Inr d \<Rightarrow> Inr d
      | Inl err \<Rightarrow>
          if isinstance err TimeoutError
          then Inl (Exn GaiaStationTimeoutError (''Timeout connecting to '' @ host) 0)
          else if isinstance err ClientConnectionError
          then Inl (Exn GaiaStationConnectionError
                      (''Cannot connect to '' @ host @ '': '' @ exn_str err) 0)
          else if isinstance err ClientResponseError
          then Inl (Exn GaiaStationApiError
                      (''HTTP '' @ str_nat (exn_status err) @ '' error from '' @ url) 0)
          else if isinstance err ClientError
          then Inl (Exn GaiaStationConnectionError
                      (''HTTP error connecting to '' @ host @ '': '' @ exn_str err) 0)
          else Inl err)"

definition async_get_realtime_data :: "loads \<Rightarrow> string \<Rightarrow> transport \<Rightarrow> exn + json dict" where
  "async_get_realtime_data json_loads host tr = async_get_data json_loads host ''/realtime/'' tr"

section \<open>The poll orchestrator (coordinator.py)\<close>

text \<open>
  The coordinator keeps the last raw payload in \<^verbatim>\<open>raw_data\<close>; \<open>coordinator_data\<close> is its
  attribute \<^verbatim>\<open>data\<close>, the flat map the host publishes (\<^verbatim>\<open>None\<close> before the first successful refresh). \<^verbatim>\<open>_async_update_data\<close>
  assigns \<^verbatim>\<open>raw_data\<close> as soon as the fetch has returned, then flattens; its one handler
  turns a \<^verbatim>\<open>GaiaStationApiError\<close> into \<^verbatim>\<open>UpdateFailed\<close>.
\<close>

record coordinator =
  raw_data :: "json dict"
  coordinator_data :: "json dict option"

definition update_handler :: "exn \<Rightarrow> exn" where
  "update_handler err =
     (if isinstance err GaiaStationApiError
      then Exn UpdateFailed (''Error communicating with API: '' @ exn_str err) 0
      else err)"

definition async_update_data ::
  "loads \<Rightarrow> string \<Rightarrow> transport \<Rightarrow> coordinator \<Rightarrow> (exn + json dict) \<times> coordinator" where
  "async_update_data json_loads host tr c =
     (case async_get_realtime_data json_loads host tr of
        Inl err \<Rightarrow> (Inl (update_handler err), c)
      | Inr d \<Rightarrow>
          (let c' = c\<lparr>raw_data := d\<rparr> in
           case flatten_data d of
             Inl err \<Rightarrow> (Inl (update_handler err), c')
           | Inr flat \<Rightarrow> (Inr flat, c')))"

section \<open>The entity descriptor catalog (sensor.py)\<close>

text \<open>
  The constants of the host that the descriptors use are enumerations here; a unit
  written as a string literal in \<^verbatim>\<open>sensor.py\<close> is \<open>UnitStr\<close>.
\<close>

datatype measurement_unit =
    CONCENTRATION_MICROGRAMS_PER_CUBIC_METER
  | CONCENTRATION_PARTS_PER_MILLION
  | CELSIUS
  | PERCENTAGE
  | MILLIVOLT
  | SECONDS
  | UnitStr string

datatype sensor_device_class =
  PM25 | PM1 | PM10 | CO2 | TEMPERATURE | HUMIDITY | VOLTAGE | DATA_SIZE | DURATION

datatype sensor_state_class = MEASUREMENT | TOTAL_INCREASING

datatype entity_category = DIAGNOSTIC

text \<open>
  \<^verbatim>\<open>GaiaStationSensorEntityDescription\<close>, with the host's defaults written out
  (\<^verbatim>\<open>entity_registry_enabled_default=True\<close>, no category, no device class). Every
  descriptor of \<^verbatim>\<open>sensor.py\<close> has as \<^verbatim>\<open>value_fn\<close> the lookup of its own key,
  \<^verbatim>\<open>lambda data: data.get("<key>")\<close>, so the accessor is a function of the record.
\<close>

record description =
  key :: string
  name :: string
  native_unit_of_measurement :: "measurement_unit option"
  device_class :: "sensor_device_class option"
  state_class :: "sensor_state_class option"
  icon :: string
  entity_registry_enabled_default :: bool
  entity_category :: "entity_category option"

definition value_fn :: "description \<Rightarrow> json dict \<Rightarrow> json option" where
  "value_fn d flat = map_of flat (key d)"

text \<open>The display name of carbon dioxide ends in U+2082, three bytes in UTF-8.\<close>

definition CO2_LABEL :: string where
  "CO2_LABEL = ''CO'' @ [CHR 0xE2, CHR 0x82, CHR 0x82]"

definition ROLLING_PM_SENSORS :: "description list" where
  "ROLLING_PM_SENSORS = [
    \<lparr>key = ''rolling_pm25_latest'', name = ''PM2.5 Rolling'',
      native_unit_of_measurement = Some CONCENTRATION_MICROGRAMS_PER_CUBIC_METER,
      device_class = Some PM25, state_class = Some MEASUREMENT,
      icon = ''mdi:blur'', entity_registry_enabled_default = True,
      entity_category = None\<rparr>,
    \<lparr>key = ''rolling_pm25_mean'', name = ''PM2.5 Rolling Mean'',
      native_unit_of_measurement = Some CONCENTRATION_MICROGRAMS_PER_CUBIC_METER,
      device_class = Some PM25, state_class = Some MEASUREMENT,
      icon = ''mdi:blur'', entity_registry_enabled_default = True,
      entity_category = None\<rparr>,
    \<lparr>key = ''rolling_pm1_latest'', name = ''PM1.0 Rolling'',
      native_unit_of_measurement = Some CONCENTRATION_MICROGRAMS_PER_CUBIC_METER,
      device_class = Some PM1, state_class = Some MEASUREMENT,
      icon = ''mdi:blur-linear'', entity_registry_enabled_default = True,
      entity_category = None\<rparr>,
    \<lparr>key = ''rolling_pm1_mean'', name = ''PM1.0 Rolling Mean'',
      native_unit_of_measurement = Some CONCENTRATION_MICROGRAMS_PER_CUBIC_METER,
      device_class = Some PM1, state_class = Some MEASUREMENT,
      icon = ''mdi:blur-linear'', entity_registry_enabled_default = True,
      entity_category = None\<rparr>,
    \<lparr>key = ''rolling_pm10_latest'', name = ''PM10 Rolling'',
      native_unit_of_measurement = Some CONCENTRATION_MICROGRAMS_PER_CUBIC_METER,
      device_class = Some PM10, state_class = Some MEASUREMENT,
      icon = ''mdi:blur-radial'', entity_registry_enabled_default = True,
      entity_category = None\<rparr>,
    \<lparr>key = ''rolling_pm10_mean'', name = ''PM10 Rolling Mean'',
      native_unit_of_measurement = Some CONCENTRATION_MICROGRAMS_PER_CUBIC_METER,
      device_class = Some PM10, state_class = Some MEASUREMENT,
      icon = ''mdi:blur-radial'', entity_registry_enabled_default = True,
      entity_category = None\<rparr>]"

definition CO2_SENSORS :: "description list" where
  "CO2_SENSORS = [
    \<lparr>key = ''co2_latest'', name = CO2_LABEL,
      native_unit_of_measurement = Some CONCENTRATION_PARTS_PER_MILLION,
      device_class = Some CO2, state_class = Some MEASUREMENT,
      icon = ''mdi:molecule-co2'', entity_registry_enabled_default = True,
      entity_category = None\<rparr>,
    \<lparr>key = ''co2_mean'', name = CO2_LABEL @ '' Mean'',
      native_unit_of_measurement = Some CONCENTRATION_PARTS_PER_MILLION,
      device_class = Some CO2, state_class = Some MEASUREMENT,
      icon = ''mdi:molecule-co2'', entity_registry_enabled_default = True,
      entity_category = None\<rparr>,
    \<lparr>key = ''co2_min'', name = CO2_LABEL @ '' Min'',
      native_unit_of_measurement = Some CONCENTRATION_PARTS_PER_MILLION,
      device_class = Some CO2, state_class = Some MEASUREMENT,
      icon = ''mdi:molecule-co2'', entity_registry_enabled_default = True,
      entity_category = None\<rparr>,
    \<lparr>key = ''co2_max'', name = CO2_LABEL @ '' Max'',
      native_unit_of_measurement = Some CONCENTRATION_PARTS_PER_MILLION,
      device_class = Some CO2, state_class = Some MEASUREMENT,
      icon = ''mdi:molecule-co2'', entity_registry_enabled_default = True,
      entity_category = None\<rparr>,
    \<lparr>key = ''co2_median'', name = CO2_LABEL @ '' Median'',
      native_unit_of_measurement = Some CONCENTRATION_PARTS_PER_MILLION,
      device_class = Some CO2, state_class = Some MEASUREMENT,
      icon = ''mdi:molecule-co2'', entity_registry_enabled_default = True,
      entity_category = None\<rparr>]"

definition MET_SENSORS :: "description list" where
  "MET_SENSORS = [
    \<lparr>key = ''temperature_latest'', name = ''Temperature'',
      native_unit_of_measurement = Some CELSIUS,
      device_class = Some TEMPERATURE, state_class = Some MEASUREMENT,
      icon = ''mdi:thermometer'', entity_registry_enabled_default = True,
      entity_category = None\<rparr>,
    \<lparr>key = ''humidity_latest'', name = ''Humidity'',
      native_unit_of_measurement = Some PERCENTAGE,
      device_class = Some HUMIDITY, state_class = Some MEASUREMENT,
      icon = ''mdi:water-percent'', entity_registry_enabled_default = True,
      entity_category = None\<rparr>]"

definition SYSTEM_SENSORS :: "description list" where
  "SYSTEM_SENSORS = [
    \<lparr>key = ''sys_vpwr'', name = ''Supply Voltage'',
      native_unit_of_measurement = Some MILLIVOLT,
      device_class = Some VOLTAGE, state_class = Some MEASUREMENT,
      icon = ''mdi:flash'', entity_registry_enabled_default = False,
      entity_category = Some DIAGNOSTIC\<rparr>,
    \<lparr>key = ''sys_heap'', name = ''Free Heap Memory'',
      native_unit_of_measurement = Some (UnitStr ''B''),
      device_class = Some DATA_SIZE, state_class = Some MEASUREMENT,
      icon = ''mdi:memory'', entity_registry_enabled_default = False,
      entity_category = Some DIAGNOSTIC\<rparr>,
    \<lparr>key = ''sys_alive'', name = ''Uptime'',
      native_unit_of_measurement = Some SECONDS,
      device_class = Some DURATION, state_class = Some TOTAL_INCREASING,
      icon = ''mdi:clock-outline'', entity_registry_enabled_default = False,
      entity_category = Some DIAGNOSTIC\<rparr>,
    \<lparr>key = ''sys_boot'', name = ''Boot Count'',
      native_unit_of_measurement = None,
      device_class = None, state_class = Some TOTAL_INCREASING,
      icon = ''mdi:restart'', entity_registry_enabled_default = False,
      entity_category = Some DIAGNOSTIC\<rparr>]"

definition ALL_STATIC_SENSORS :: "description list" where
  "ALL_STATIC_SENSORS = ROLLING_PM_SENSORS @ CO2_SENSORS @ MET_SENSORS @ SYSTEM_SENSORS"

subsection \<open>Dynamic discovery of the particulate groups\<close>

text \<open>\<^verbatim>\<open>key.startswith(p)\<close>, \<^verbatim>\<open>k in data\<close> and \<^verbatim>\<open>group.upper()\<close> (on ASCII letters).\<close>

definition startswith :: "string \<Rightarrow> string \<Rightarrow> bool" where
  "startswith s p = prefix p s"

definition has_key :: "'v dict \<Rightarrow> string \<Rightarrow> bool" where
  "has_key d k = (k \<in> set (map fst d))"

definition upper_char :: "char \<Rightarrow> char" where
  "upper_char c =
     (if CHR ''a'' \<le> c \<and> c \<le> CHR ''z'' then char_of (of_char c - (32::nat)) else c)"

definition upper :: "string \<Rightarrow> string" where
  "upper s = map upper_char s"

text \<open>
  The first loop of \<^verbatim>\<open>_build_dynamic_pms_sensors\<close> collects group names in a set; the
  set is a list without repetition here, and \<^verbatim>\<open>sorted\<close> orders it.
\<close>

definition PREFIX_CANDIDATES :: "string list" where
  "PREFIX_CANDIDATES = [''pms1'', ''pms2'', ''pms3'']"

definition candidate_step :: "string \<Rightarrow> string \<Rightarrow> string list \<Rightarrow> string list" where
  "candidate_step k prefix_candidate groups =
     (if startswith k (prefix_candidate @ ''_'') then List.insert prefix_candidate groups
      else groups)"

definition discover_step :: "string \<Rightarrow> string list \<Rightarrow> string list" where
  "discover_step k groups = fold (candidate_step k) PREFIX_CANDIDATES groups"

definition discovered_groups :: "json dict \<Rightarrow> string list" where
  "discovered_groups flat = fold discover_step (map fst flat) []"

definition pm_configs :: "(string \<times> string \<times> sensor_device_class \<times> string) list" where
  "pm_configs =
     [(''pm25'', ''PM2.5'', PM25, ''mdi:blur''),
      (''pm1'', ''PM1.0'', PM1, ''mdi:blur-linear''),
      (''pm10'', ''PM10'', PM10, ''mdi:blur-radial'')]"

text \<open>The descriptor that each of the five \<^verbatim>\<open>sensors.append\<close> calls builds.\<close>

definition pms_description ::
  "string \<Rightarrow> string \<Rightarrow> sensor_device_class \<Rightarrow> string \<Rightarrow> description" where
  "pms_description k label dc ic =
     \<lparr>key = k, name = label,
      native_unit_of_measurement = Some CONCENTRATION_MICROGRAMS_PER_CUBIC_METER,
      device_class = Some dc, state_class = Some MEASUREMENT,
      icon = ic, entity_registry_enabled_default = True,
      entity_category = None\<rparr>"

definition channel_sensors ::
  "json dict \<Rightarrow> string \<Rightarrow> string \<times> string \<times> sensor_device_class \<times> string \<Rightarrow> description list" where
  "channel_sensors flat grp cfg =
     (case cfg of (pm_key, pm_label, dc, ic) \<Rightarrow>
        let group_label = upper grp;
            latest_key = grp @ ''_'' @ pm_key @ ''_latest'';
            mean_key = grp @ ''_'' @ pm_key @ ''_mean'';
            min_key = grp @ ''_'' @ pm_key @ ''_min'';
            max_key = grp @ ''_'' @ pm_key @ ''_max'';
            median_key = grp @ ''_'' @ pm_key @ ''_median''
        in (if has_key flat latest_key
            then [pms_description latest_key (group_label @ '' '' @ pm_label) dc ic] else [])
         @ (if has_key flat mean_key
            then [pms_description mean_key (group_label @ '' '' @ pm_label @ '' Mean'') dc ic]
            else [])
         @ (if has_key flat min_key
            then [pms_description min_key (group_label @ '' '' @ pm_label @ '' Min'') dc ic]
            else [])
         @ (if has_key flat max_key
            then [pms_description max_key (group_label @ '' '' @ pm_label @ '' Max'') dc ic]
            else [])
         @ (if has_key flat median_key
            then [pms_description median_key (group_label @ '' '' @ pm_label @ '' Median'') dc ic]
            else []))"

definition group_sensors :: "json dict \<Rightarrow> string \<Rightarrow> description list" where
  "group_sensors flat grp = concat (map (channel_sensors flat grp) pm_configs)"

definition build_dynamic_pms_sensors :: "json dict \<Rightarrow> description list" where
  "build_dynamic_pms_sensors flat =
     concat (map (group_sensors flat) (sort (discovered_groups flat)))"

subsection \<open>Entity setup\<close>

text \<open>
  A sensor entity holds its descriptor and the unique id built from the config entry;
  its device record is the same for all sensors of an entry and is left out.
  \<^verbatim>\<open>async_setup_entry\<close> returns the list it passes to \<^verbatim>\<open>async_add_entities\<close>;
  \<^verbatim>\<open>coordinator.data or {}\<close> is the empty dict when no data has been published.
\<close>

record config_entry =
  entry_id :: string
  title :: string

record sensor =
  entity_description :: description
  unique_id :: string

definition GaiaStationSensor :: "description \<Rightarrow> config_entry \<Rightarrow> sensor" where
  "GaiaStationSensor d entry =
     \<lparr>entity_description = d, unique_id = entry_id entry @ ''_'' @ key d\<rparr>"

definition setup_data :: "coordinator \<Rightarrow> json dict" where
  "setup_data c = (case coordinator_data c of None \<Rightarrow> [] | Some d \<Rightarrow> d)"

definition async_setup_entry :: "coordinator \<Rightarrow> config_entry \<Rightarrow> sensor list" where
  "async_setup_entry c entry =
     (let flat = setup_data c in
      map (\<lambda>d. GaiaStationSensor d entry)
          (filter (\<lambda>d. has_key flat (key d)) ALL_STATIC_SENSORS)
      @ map (\<lambda>d. GaiaStationSensor d entry) (build_dynamic_pms_sensors flat))"

text \<open>\<^verbatim>\<open>native_value\<close>: nothing while no data is published, else the descriptor's accessor.\<close>

definition native_value :: "coordinator \<Rightarrow> sensor \<Rightarrow> json option" where
  "native_value c s =
     (case coordinator_data c of
        None \<Rightarrow> None
      | Some flat \<Rightarrow> value_fn (entity_description s) flat)"

subsection \<open>The candidate keys in the words of the specification\<close>

text \<open>
  The specification describes the dynamic pass by its keys: for each of the prefixes
  \<^verbatim>\<open>pms1\<close>, \<^verbatim>\<open>pms2\<close>, \<^verbatim>\<open>pms3\<close>, three particle channels times five stat fields (latest, mean,
  min, max, median), and a descriptor only for the keys actually present. These two
  definitions say that, to be compared with \<open>build_dynamic_pms_sensors\<close>.
\<close>

definition spec_group_keys :: "string \<Rightarrow> string list" where
  "spec_group_keys g =
     concat (map (\<lambda>channel. map (\<lambda>stat. g @ ''_'' @ channel @ ''_'' @ stat)
                                 [''latest'', ''mean'', ''min'', ''max'', ''median''])
                 [''pm25'', ''pm1'', ''pm10''])"

definition spec_dynamic_keys :: "json dict \<Rightarrow> string list" where
  "spec_dynamic_keys flat =
     filter (has_key flat) (concat (map spec_group_keys [''pms1'', ''pms2'', ''pms3'']))"

section \<open>Sample bodies\<close>

text \<open>
  The theorems below hold for every decoder. Where one is evaluated at a concrete
  response, the decoder is this table: on each of the bodies \<^verbatim>\<open>{}\<close>, \<^verbatim>\<open>[1, 2]\<close>,
  \<^verbatim>\<open>{"pms": 5}\<close> and \<^verbatim>\<open>not json\<close> it gives what \<^verbatim>\<open>json.loads\<close> gives there (for the last
  one the text of the \<^verbatim>\<open>JSONDecodeError\<close>); no other body is used with it.
\<close>

definition PMS_NUMBER_BODY :: string where
  "PMS_NUMBER_BODY = ''{'' @ [CHR 0x22] @ ''pms'' @ [CHR 0x22] @ '': 5}''"

definition sample_loads :: loads where
  "sample_loads body =
     (if body = ''{}'' then Inr (JDict [])
      else if body = ''[1, 2]'' then Inr (JList [JInt 1, JInt 2])
      else if body = PMS_NUMBER_BODY then Inr (JDict [(''pms'', JInt 5)])
      else Inl ''Expecting value: line 1 column 1 (char 0)'')"

section \<open>Properties of the flattening transform\<close>

lemmas flatten_defs =
  flatten_data_def flatten_sys_def flatten_met_def flatten_co2_def flatten_rolling_def
  flatten_groups_def group_step_def emit_particles_def particle_step_def emit_stats_def
  stat_step_def sys_step_def met_step_def STAT_KEYS_def PARTICLE_TYPES_def SYS_KEYS_def

lemma stat_fold_other:
  "\<not> prefix (pfx @ ''_'') k \<Longrightarrow> map_of (fold (stat_step pfx block) ks flat) k = map_of flat k"
proof (induction ks arbitrary: flat)
  case Nil
  then show ?case by simp
next
  case (Cons a ks)
  have "k \<noteq> pfx @ ''_'' @ a"
    using Cons.prems by (auto simp: prefix_def)
  then have "map_of (stat_step pfx block a flat) k = map_of flat k"
    by (simp add: stat_step_def update_conv' split: option.splits)
  with Cons show ?case by simp
qed

lemma stat_fold_miss:
  "s \<notin> set ks \<Longrightarrow>
   map_of (fold (stat_step pfx block) ks flat) (pfx @ ''_'' @ s) = map_of flat (pfx @ ''_'' @ s)"
proof (induction ks arbitrary: flat)
  case Nil
  then show ?case by simp
next
  case (Cons a ks)
  then have "map_of (stat_step pfx block a flat) (pfx @ ''_'' @ s) = map_of flat (pfx @ ''_'' @ s)"
    by (simp add: stat_step_def update_conv' split: option.splits)
  with Cons show ?case by simp
qed

lemma stat_fold_hit:
  "distinct ks \<Longrightarrow> s \<in> set ks \<Longrightarrow> map_of block s = Some v \<Longrightarrow>
   map_of (fold (stat_step pfx block) ks flat) (pfx @ ''_'' @ s) = Some v"
proof (induction ks arbitrary: flat)
  case Nil
  then show ?case by simp
next
  case (Cons a ks)
  show ?case
  proof (cases "s = a")
    case True
    then have "s \<notin> set ks" using Cons.prems by simp
    then have "map_of (fold (stat_step pfx block) ks (stat_step pfx block a flat)) (pfx @ ''_'' @ s)
               = map_of (stat_step pfx block a flat) (pfx @ ''_'' @ s)"
      by (rule stat_fold_miss)
    also have "\<dots> = Some v"
      using True Cons.prems(3) by (simp add: stat_step_def update_conv')
    finally show ?thesis by simp
  next
    case False
    then show ?thesis using Cons by simp
  qed
qed

lemma emit_stats_other:
  "\<not> prefix (pfx @ ''_'') k \<Longrightarrow> map_of (emit_stats pfx block flat) k = map_of flat k"
  by (simp add: emit_stats_def stat_fold_other)

lemma emit_stats_hit:
  "s \<in> set STAT_KEYS \<Longrightarrow> map_of block s = Some v \<Longrightarrow>
   map_of (emit_stats pfx block flat) (pfx @ ''_'' @ s) = Some v"
  unfolding emit_stats_def by (rule stat_fold_hit) (simp_all add: STAT_KEYS_def)

lemma met_step_other:
  "\<not> prefix (met_type @ ''_'') k \<Longrightarrow> map_of (met_step met met_type flat) k = map_of flat k"
  by (auto simp: met_step_def emit_stats_other update_conv' prefix_def
           split: option.splits json.splits)

lemma flatten_sys_other:
  "\<not> prefix ''sys_'' k \<Longrightarrow> map_of (flatten_sys data flat) k = map_of flat k"
proof -
  assume k: "\<not> prefix ''sys_'' k"
  have step: "map_of (fold (sys_step sd) ks fl) k = map_of fl k" for sd ks fl
  proof (induction ks arbitrary: fl)
    case Nil
    then show ?case by simp
  next
    case (Cons a ks)
    have "k \<noteq> ''sys_'' @ a" using k by (auto simp: prefix_def)
    then have "map_of (sys_step sd a fl) k = map_of fl k"
      by (simp add: sys_step_def update_conv' split: option.splits)
    with Cons show ?case by simp
  qed
  show ?thesis
    by (simp add: flatten_sys_def step split: option.splits json.splits)
qed

lemma met_step_dict:
  "map_of met met_type = Some (JDict md) \<Longrightarrow> s \<in> set STAT_KEYS \<Longrightarrow> map_of md s = Some v \<Longrightarrow>
   map_of (met_step met met_type flat) (met_type @ ''_'' @ s) = Some v"
  using emit_stats_hit [of s md v met_type flat] by (simp add: met_step_def)

lemma met_step_number:
  "map_of met met_type = Some x \<Longrightarrow> x = JInt n \<or> x = JFloat r \<Longrightarrow>
   map_of (met_step met met_type flat) (met_type @ ''_latest'') = Some x"
  by (auto simp: met_step_def update_conv')

lemma flatten_data_Inr:
  "flatten_data data = Inr flat \<Longrightarrow>
   \<exists>pms. flat = flatten_sys data (flatten_met data (flatten_co2 data
                 (flatten_rolling pms (flatten_groups pms []))))"
  by (auto simp: flatten_data_def split: option.splits json.splits)


lemma flatten_met_temperature:
  assumes "map_of data ''met'' = Some (JDict met)"
    and "prefix ''temperature_'' k"
  shows "map_of (flatten_sys data (flatten_met data flat)) k
         = map_of (met_step met ''temperature'' flat) k"
proof -
  have "\<not> prefix ''sys_'' k" "\<not> prefix (''humidity'' @ ''_'') k"
    using assms(2) by (auto simp: prefix_def)
  then show ?thesis
    using assms(1) by (simp add: flatten_sys_other flatten_met_def met_step_other)
qed

lemma flatten_met_humidity:
  assumes "map_of data ''met'' = Some (JDict met)"
    and "prefix ''humidity_'' k"
  shows "map_of (flatten_sys data (flatten_met data flat)) k
         = map_of (met_step met ''humidity'' (met_step met ''temperature'' flat)) k"
proof -
  have "\<not> prefix ''sys_'' k"
    using assms(2) by (auto simp: prefix_def)
  then show ?thesis
    using assms(1) by (simp add: flatten_sys_other flatten_met_def)
qed

lemma flatten_met_lookup:
  assumes "flatten_data data = Inr flat"
    and "map_of data ''met'' = Some (JDict met)"
    and "met_type = ''temperature'' \<or> met_type = ''humidity''"
  shows "\<exists>fl. map_of flat (met_type @ ''_'' @ s) = map_of (met_step met met_type fl) (met_type @ ''_'' @ s)"
proof -
  obtain pms where flat: "flat = flatten_sys data (flatten_met data (flatten_co2 data
                 (flatten_rolling pms (flatten_groups pms []))))"
    using flatten_data_Inr [OF assms(1)] by blast
  from assms(3) show ?thesis
  proof
    assume "met_type = ''temperature''"
    then show ?thesis
      unfolding flat using flatten_met_temperature [OF assms(2), of "''temperature_'' @ s"]
      by (metis append_Cons append_Nil prefixI)
  next
    assume "met_type = ''humidity''"
    then show ?thesis
      unfolding flat using flatten_met_humidity [OF assms(2), of "''humidity_'' @ s"]
      by (metis append_Cons append_Nil prefixI)
  qed
qed

text \<open>
  Claim C9. Under \<^verbatim>\<open>met\<close> a bare number becomes the key \<^verbatim>\<open><name>_latest\<close>: the payload
  \<^verbatim>\<open>{"met": {"temperature": 21.5}}\<close> flattens to exactly \<^verbatim>\<open>{"temperature_latest": 21.5}\<close>.
  In every payload that flattens, a \<^verbatim>\<open>temperature\<close> or \<^verbatim>\<open>humidity\<close> entry that is an
  integer or a float is found under \<^verbatim>\<open><name>_latest\<close>, and one that is an object has each
  of its recognized stat fields under \<^verbatim>\<open><name>_<statfield>\<close>, with the value unchanged.
\<close>

theorem flatten_met_entries:
  "flatten_data [(''met'', JDict [(''temperature'', JFloat 21.5)])]
     = Inr [(''temperature_latest'', JFloat 21.5)]
   \<and> (\<forall>data flat met met_type.
        flatten_data data = Inr flat \<and> map_of data ''met'' = Some (JDict met)
        \<and> (met_type = ''temperature'' \<or> met_type = ''humidity'') \<longrightarrow>
          (\<forall>n. map_of met met_type = Some (JInt n) \<longrightarrow>
                 map_of flat (met_type @ ''_latest'') = Some (JInt n))
        \<and> (\<forall>x. map_of met met_type = Some (JFloat x) \<longrightarrow>
                 map_of flat (met_type @ ''_latest'') = Some (JFloat x))
        \<and> (\<forall>met_data stat_key v.
              map_of met met_type = Some (JDict met_data) \<and> stat_key \<in> set STAT_KEYS
              \<and> map_of met_data stat_key = Some v \<longrightarrow>
                 map_of flat (met_type @ ''_'' @ stat_key) = Some v))"
proof (intro conjI allI impI)
  show "flatten_data [(''met'', JDict [(''temperature'', JFloat 21.5)])]
     = Inr [(''temperature_latest'', JFloat 21.5)]"
    by (simp add: flatten_defs)
next
  fix data flat met met_type n
  assume a: "flatten_data data = Inr flat \<and> map_of data ''met'' = Some (JDict met)
        \<and> (met_type = ''temperature'' \<or> met_type = ''humidity'')"
    and b: "map_of met met_type = Some (JInt n)"
  from a obtain fl where "map_of flat (met_type @ ''_'' @ ''latest'')
      = map_of (met_step met met_type fl) (met_type @ ''_'' @ ''latest'')"
    using flatten_met_lookup by blast
  then show "map_of flat (met_type @ ''_latest'') = Some (JInt n)"
    using met_step_number [OF b, of n] by simp
next
  fix data flat met met_type x
  assume a: "flatten_data data = Inr flat \<and> map_of data ''met'' = Some (JDict met)
        \<and> (met_type = ''temperature'' \<or> met_type = ''humidity'')"
    and b: "map_of met met_type = Some (JFloat x)"
  from a obtain fl where "map_of flat (met_type @ ''_'' @ ''latest'')
      = map_of (met_step met met_type fl) (met_type @ ''_'' @ ''latest'')"
    using flatten_met_lookup by blast
  then show "map_of flat (met_type @ ''_latest'') = Some (JFloat x)"
    using met_step_number [OF b, of _ x] by simp
next
  fix data flat met met_type met_data stat_key v
  assume a: "flatten_data data = Inr flat \<and> map_of data ''met'' = Some (JDict met)
        \<and> (met_type = ''temperature'' \<or> met_type = ''humidity'')"
    and b: "map_of met met_type = Some (JDict met_data) \<and> stat_key \<in> set STAT_KEYS
              \<and> map_of met_data stat_key = Some v"
  from a obtain fl where "map_of flat (met_type @ ''_'' @ stat_key)
      = map_of (met_step met met_type fl) (met_type @ ''_'' @ stat_key)"
    using flatten_met_lookup by blast
  then show "map_of flat (met_type @ ''_'' @ stat_key) = Some v"
    using b met_step_dict [of met met_type met_data stat_key v fl] by simp
qed

text \<open>The object case of C9 at a humidity block with two stat fields.\<close>

theorem flatten_met_entries_witness:
  "flatten_data [(''met'', JDict [(''humidity'', JDict [(''latest'', JInt 40), (''max'', JInt 55)])])]
     = Inr [(''humidity_latest'', JInt 40), (''humidity_max'', JInt 55)]
   \<and> map_of [(''met'', JDict [(''humidity'', JDict [(''latest'', JInt 40), (''max'', JInt 55)])])] ''met''
     = Some (JDict [(''humidity'', JDict [(''latest'', JInt 40), (''max'', JInt 55)])])
   \<and> map_of [(''humidity'', JDict [(''latest'', JInt 40), (''max'', JInt 55)])] ''humidity''
     = Some (JDict [(''latest'', JInt 40), (''max'', JInt 55)])
   \<and> ''max'' \<in> set STAT_KEYS
   \<and> map_of [(''latest'', JInt 40), (''max'', JInt 55)] ''max'' = Some (JInt 55)
   \<and> map_of [(''humidity_latest'', JInt 40), (''humidity_max'', JInt 55)] (''humidity'' @ ''_'' @ ''max'')
     = Some (JInt 55)"
proof -
  have f: "flatten_data [(''met'', JDict [(''humidity'', JDict [(''latest'', JInt 40), (''max'', JInt 55)])])]
     = Inr [(''humidity_latest'', JInt 40), (''humidity_max'', JInt 55)]"
    by (simp add: flatten_defs)
  have k: "''max'' \<in> set STAT_KEYS" by (simp add: STAT_KEYS_def)
  from flatten_met_entries f k show ?thesis by simp
qed

text \<open>
  Claim C7. The payload
  \<^verbatim>\<open>{"pms": {"pms1": {"pm25": {"latest": 12, "mean": 10}}}, "sys": {"boot": 3}}\<close>
  flattens to the three keys \<^verbatim>\<open>pms1_pm25_latest\<close>, \<^verbatim>\<open>pms1_pm25_mean\<close> and \<^verbatim>\<open>sys_boot\<close> with
  the values 12, 10 and 3, and to no other key.
\<close>

theorem flatten_data_example:
  "flatten_data
     [(''pms'', JDict [(''pms1'', JDict [(''pm25'', JDict [(''latest'', JInt 12), (''mean'', JInt 10)])])]),
      (''sys'', JDict [(''boot'', JInt 3)])]
   = Inr [(''pms1_pm25_latest'', JInt 12), (''pms1_pm25_mean'', JInt 10), (''sys_boot'', JInt 3)]"
  by (simp add: flatten_defs)

text \<open>
  When \<^verbatim>\<open>pms\<close> is missing or an object the transform returns a flat map, whatever the
  other groups hold; when \<^verbatim>\<open>pms\<close> is bound to anything else it raises.
\<close>

lemma flatten_data_returns:
  "map_of data ''pms'' = None \<or> (\<exists>pms. map_of data ''pms'' = Some (JDict pms)) \<Longrightarrow>
   \<exists>flat. flatten_data data = Inr flat"
  by (auto simp: flatten_data_def)

lemma flatten_data_raises:
  "map_of data ''pms'' = Some v \<Longrightarrow> \<forall>pms. v \<noteq> JDict pms \<Longrightarrow>
   flatten_data data = Inl (no_attribute v ''items'')"
  by (cases v) (simp_all add: flatten_data_def)

text \<open>
  Claim C1 says that the transform never raises and that a non-object where an object is
  expected only drops that branch's keys. On the payload \<^verbatim>\<open>{"pms": 5}\<close> the transform
  raises \<^verbatim>\<open>AttributeError\<close>: \<^verbatim>\<open>pms\<close> is the one group used without the \<^verbatim>\<open>isinstance\<close>
  guard that \<^verbatim>\<open>co2\<close>, \<^verbatim>\<open>met\<close>, \<^verbatim>\<open>sys\<close> and \<^verbatim>\<open>pms.rolling\<close> have.
\<close>

theorem flatten_data_pms_number:
  "flatten_data [(''pms'', JInt 5)]
     = Inl (Exn AttributeError
              ([CHR 0x27] @ ''int'' @ [CHR 0x27] @ '' object has no attribute ''
                 @ [CHR 0x27] @ ''items'' @ [CHR 0x27]) 0)"
  by (simp add: flatten_data_def no_attribute_def)

section \<open>Properties of the transport client\<close>

lemma issubclass_eval:
  "issubclass c d = (d \<in> set (ancestors (Suc (Suc (Suc (Suc (Suc 0))))) c))"
  by (simp add: issubclass_def eval_nat_numeral)

lemmas isinstance_eval = isinstance_def issubclass_eval

lemma str_nat_404: "str_nat 404 = ''404''"
  by code_simp

lemma request_status_error:
  "400 \<le> resp_status r \<Longrightarrow>
   request json_loads url (Response r) =
     Inl (Exn ClientResponseError
            (str_nat (resp_status r) @ '', message='' @ quoted (resp_reason r)
               @ '', url='' @ quoted url)
            (resp_status r))"
  by (simp add: request_def raise_for_status_def)

lemma request_status_ok:
  "resp_status r < 400 \<Longrightarrow>
   request json_loads url (Response r) =
     (case resp_text r of Inl e \<Rightarrow> Inl e | Inr body \<Rightarrow> decode json_loads url body)"
  by (simp add: request_def raise_for_status_def)

lemma async_get_data_status_error:
  "400 \<le> resp_status r \<Longrightarrow>
   async_get_data json_loads host endpoint (Response r) =
     Inl (Exn GaiaStationApiError
            (''HTTP '' @ str_nat (resp_status r) @ '' error from http://'' @ host @ endpoint) 0)"
  by (simp add: async_get_data_def request_status_error isinstance_eval)

lemma decode_not_json:
  "json_loads body = Inl m \<Longrightarrow>
   decode json_loads url body =
     Inl (Exn GaiaStationApiError (''Invalid JSON response from '' @ url @ '': '' @ m) 0)"
  by (simp add: decode_def decode_body_def isinstance_eval)

lemma decode_non_object:
  "json_loads body = Inr v \<Longrightarrow> \<forall>d. v \<noteq> JDict d \<Longrightarrow>
   decode json_loads url body =
     Inl (Exn ValueError (''Expected dict, got <class '' @ quoted (type_name v) @ ''>'') 0)"
  by (cases v) (simp_all add: decode_def decode_body_def isinstance_eval)

lemma decode_object:
  "json_loads body = Inr (JDict d) \<Longrightarrow> decode json_loads url body = Inr d"
  by (simp add: decode_def decode_body_def)

lemma async_get_data_raised:
  "async_get_data json_loads host endpoint (GetRaised e) =
     (if isinstance e TimeoutError
      then Inl (Exn GaiaStationTimeoutError (''Timeout connecting to '' @ host) 0)
      else if isinstance e ClientConnectionError
      then Inl (Exn GaiaStationConnectionError
                  (''Cannot connect to '' @ host @ '': '' @ exn_str e) 0)
      else if isinstance e ClientResponseError
      then Inl (Exn GaiaStationApiError
                  (''HTTP '' @ str_nat (exn_status e) @ '' error from http://'' @ host @ endpoint) 0)
      else if isinstance e ClientError
      then Inl (Exn GaiaStationConnectionError
                  (''HTTP error connecting to '' @ host @ '': '' @ exn_str e) 0)
      else Inl e)"
  by (simp add: async_get_data_def request_def)

text \<open>
  Claim C2 says that a body that is valid JSON but not an object makes the fetch fail with
  an error of the \<^verbatim>\<open>GaiaStationApiError\<close> family. The code raises \<^verbatim>\<open>ValueError\<close> inside the
  \<^verbatim>\<open>try\<close> whose handler catches \<^verbatim>\<open>json.JSONDecodeError\<close> only, and no outer handler
  matches it: for every response below 400 whose body decodes to a non-object, the fetch
  ends in that \<^verbatim>\<open>ValueError\<close>, which is not a \<^verbatim>\<open>GaiaStationApiError\<close>.
\<close>

theorem async_get_data_non_object:
  assumes "resp_status r < 400" and "resp_text r = Inr body"
    and "json_loads body = Inr v" and "\<forall>d. v \<noteq> JDict d"
  shows "async_get_data json_loads host endpoint (Response r) =
           Inl (Exn ValueError (''Expected dict, got <class '' @ quoted (type_name v) @ ''>'') 0)
         \<and> \<not> issubclass ValueError GaiaStationApiError"
  using assms
  by (simp add: async_get_data_def request_status_ok decode_non_object isinstance_eval)

text \<open>The body \<^verbatim>\<open>[1, 2]\<close> with status 200.\<close>

theorem async_get_data_non_object_witness:
  "async_get_data sample_loads ''gaia.local'' ''/realtime/''
     (Response \<lparr>resp_status = 200, resp_reason = ''OK'',
                resp_content_type = ''application/json'', resp_text = Inr ''[1, 2]''\<rparr>)
   = Inl (Exn ValueError (''Expected dict, got <class '' @ [CHR 0x27] @ ''list'' @ [CHR 0x27] @ ''>'') 0)"
  using async_get_data_non_object [of
      "\<lparr>resp_status = 200, resp_reason = ''OK'',
        resp_content_type = ''application/json'', resp_text = Inr ''[1, 2]''\<rparr>"
      "''[1, 2]''" sample_loads "JList [JInt 1, JInt 2]" "''gaia.local''" "''/realtime/''"]
  by (simp add: sample_loads_def quoted_def)

text \<open>
  Claim C3 as stated fails on a redirect: a 301 response whose body is the JSON object
  \<^verbatim>\<open>{}\<close> is returned as data, no error is raised.
\<close>

theorem async_get_data_redirect_counterexample:
  "async_get_data sample_loads ''gaia.local'' ''/realtime/''
     (Response \<lparr>resp_status = 301, resp_reason = ''Moved Permanently'',
                resp_content_type = ''application/json'', resp_text = Inr ''{}''\<rparr>)
   = Inr []"
  by (simp add: async_get_data_def request_def raise_for_status_def decode_def decode_body_def
        sample_loads_def)

text \<open>
  Claim C3, amended. Every response with a status code of 400 or more makes the fetch
  fail with \<^verbatim>\<open>GaiaStationApiError\<close>, whose message carries the status code. Redirects are
  not followed, and a response with a status below 400 (a 3xx among them) is not failed
  on its status: the fetch treats it as it treats the same response with status 200.
\<close>

theorem async_get_data_status:
  "(400 \<le> resp_status r \<longrightarrow>
      async_get_data json_loads host endpoint (Response r) =
        Inl (Exn GaiaStationApiError
               (''HTTP '' @ str_nat (resp_status r) @ '' error from http://'' @ host @ endpoint) 0))
   \<and> (resp_status r < 400 \<longrightarrow>
      async_get_data json_loads host endpoint (Response r) =
        async_get_data json_loads host endpoint (Response (r\<lparr>resp_status := 200\<rparr>)))"
  by (simp add: async_get_data_status_error)
     (simp add: async_get_data_def request_status_ok)

text \<open>Status 404, and status 301 against status 200 on the same body.\<close>

theorem async_get_data_status_witness:
  "async_get_data sample_loads ''gaia.local'' ''/realtime/''
     (Response \<lparr>resp_status = 404, resp_reason = ''Not Found'',
                resp_content_type = ''text/html'', resp_text = Inr ''not json''\<rparr>)
   = Inl (Exn GaiaStationApiError ''HTTP 404 error from http://gaia.local/realtime/'' 0)
   \<and> async_get_data sample_loads ''gaia.local'' ''/realtime/''
     (Response \<lparr>resp_status = 301, resp_reason = ''Moved Permanently'',
                resp_content_type = ''application/json'', resp_text = Inr ''{}''\<rparr>)
   = async_get_data sample_loads ''gaia.local'' ''/realtime/''
     (Response \<lparr>resp_status = 200, resp_reason = ''Moved Permanently'',
                resp_content_type = ''application/json'', resp_text = Inr ''{}''\<rparr>)"
  using async_get_data_status [of
      "\<lparr>resp_status = 404, resp_reason = ''Not Found'',
        resp_content_type = ''text/html'', resp_text = Inr ''not json''\<rparr>"
      sample_loads "''gaia.local''" "''/realtime/''"]
    async_get_data_status [of
      "\<lparr>resp_status = 301, resp_reason = ''Moved Permanently'',
        resp_content_type = ''application/json'', resp_text = Inr ''{}''\<rparr>"
      sample_loads "''gaia.local''" "''/realtime/''"]
  by (simp add: str_nat_404)


lemma async_get_data_connection_error:
  assumes "cls \<in> set [ClientConnectorError, ClientConnectorDNSError, ClientOSError,
                     ServerDisconnectedError, ClientConnectionError]"
  shows "async_get_data json_loads host endpoint (GetRaised (Exn cls m st))
        = Inl (Exn GaiaStationConnectionError (''Cannot connect to '' @ host @ '': '' @ m) 0)"
proof -
  from assms consider "cls = ClientConnectorError" | "cls = ClientConnectorDNSError"
    | "cls = ClientOSError" | "cls = ServerDisconnectedError" | "cls = ClientConnectionError"
    by auto
  then show ?thesis
    by cases (simp_all add: async_get_data_raised isinstance_eval)
qed

lemma async_get_data_timeout:
  assumes "cls \<in> set [TimeoutError, ServerTimeoutError]"
  shows "async_get_data json_loads host endpoint (GetRaised (Exn cls m st))
        = Inl (Exn GaiaStationTimeoutError (''Timeout connecting to '' @ host) 0)"
proof -
  from assms consider "cls = TimeoutError" | "cls = ServerTimeoutError"
    by auto
  then show ?thesis
    by cases (simp_all add: async_get_data_raised isinstance_eval)
qed

lemma async_get_data_read_timeout:
  assumes "cls \<in> set [TimeoutError, ServerTimeoutError]"
    and "resp_status r < 400" and "resp_text r = Inl (Exn cls m st)"
  shows "async_get_data json_loads host endpoint (Response r)
        = Inl (Exn GaiaStationTimeoutError (''Timeout connecting to '' @ host) 0)"
proof -
  from assms(1) consider "cls = TimeoutError" | "cls = ServerTimeoutError"
    by auto
  then show ?thesis
    using assms(2,3)
    by cases (simp_all add: async_get_data_def request_status_ok isinstance_eval)
qed

text \<open>
  Claim C4. The fetch classifies failures by the error taxonomy: a response with status
  404 gives \<^verbatim>\<open>GaiaStationApiError\<close>; a refused connection, a DNS failure or a reset (the
  \<^verbatim>\<open>aiohttp\<close> connection errors) give \<^verbatim>\<open>GaiaStationConnectionError\<close>; the timeout expiring,
  while connecting or while reading the body, gives \<^verbatim>\<open>GaiaStationTimeoutError\<close>; the body
  \<^verbatim>\<open>not json\<close>, which \<^verbatim>\<open>json.loads\<close> rejects, gives \<^verbatim>\<open>GaiaStationApiError\<close>. Each is a raised
  error of the one base class.
\<close>

theorem async_get_data_taxonomy:
  "async_get_data json_loads host endpoint
     (Response \<lparr>resp_status = 404, resp_reason = rs, resp_content_type = ct, resp_text = t\<rparr>)
     = Inl (Exn GaiaStationApiError (''HTTP 404 error from http://'' @ host @ endpoint) 0)
   \<and> (\<forall>cls \<in> set [ClientConnectorError, ClientConnectorDNSError, ClientOSError,
                     ServerDisconnectedError, ClientConnectionError].
        async_get_data json_loads host endpoint (GetRaised (Exn cls m st))
        = Inl (Exn GaiaStationConnectionError (''Cannot connect to '' @ host @ '': '' @ m) 0))
   \<and> (\<forall>cls \<in> set [TimeoutError, ServerTimeoutError].
        async_get_data json_loads host endpoint (GetRaised (Exn cls m st))
        = Inl (Exn GaiaStationTimeoutError (''Timeout connecting to '' @ host) 0)
        \<and> async_get_data json_loads host endpoint
            (Response \<lparr>resp_status = 200, resp_reason = rs, resp_content_type = ct,
                       resp_text = Inl (Exn cls m st)\<rparr>)
        = Inl (Exn GaiaStationTimeoutError (''Timeout connecting to '' @ host) 0))
   \<and> (json_loads ''not json'' = Inl dm \<longrightarrow>
        async_get_data json_loads host endpoint
          (Response \<lparr>resp_status = 200, resp_reason = rs, resp_content_type = ct,
                     resp_text = Inr ''not json''\<rparr>)
        = Inl (Exn GaiaStationApiError
                 (''Invalid JSON response from http://'' @ host @ endpoint @ '': '' @ dm) 0))
   \<and> issubclass GaiaStationConnectionError GaiaStationApiError
   \<and> issubclass GaiaStationTimeoutError GaiaStationApiError"
proof (intro conjI ballI impI)
  show "async_get_data json_loads host endpoint
     (Response \<lparr>resp_status = 404, resp_reason = rs, resp_content_type = ct, resp_text = t\<rparr>)
     = Inl (Exn GaiaStationApiError (''HTTP 404 error from http://'' @ host @ endpoint) 0)"
    using async_get_data_status_error [of
        "\<lparr>resp_status = 404, resp_reason = rs, resp_content_type = ct, resp_text = t\<rparr>"
        json_loads host endpoint]
    by (simp add: str_nat_404)
next
  fix cls
  assume "cls \<in> set [ClientConnectorError, ClientConnectorDNSError, ClientOSError,
                     ServerDisconnectedError, ClientConnectionError]"
  then show "async_get_data json_loads host endpoint (GetRaised (Exn cls m st))
        = Inl (Exn GaiaStationConnectionError (''Cannot connect to '' @ host @ '': '' @ m) 0)"
    by (rule async_get_data_connection_error)
next
  fix cls
  assume "cls \<in> set [TimeoutError, ServerTimeoutError]"
  then show "async_get_data json_loads host endpoint (GetRaised (Exn cls m st))
        = Inl (Exn GaiaStationTimeoutError (''Timeout connecting to '' @ host) 0)"
    by (rule async_get_data_timeout)
next
  fix cls
  assume "cls \<in> set [TimeoutError, ServerTimeoutError]"
  then show "async_get_data json_loads host endpoint
            (Response \<lparr>resp_status = 200, resp_reason = rs, resp_content_type = ct,
                       resp_text = Inl (Exn cls m st)\<rparr>)
        = Inl (Exn GaiaStationTimeoutError (''Timeout connecting to '' @ host) 0)"
    by (rule async_get_data_read_timeout) simp_all
next
  assume "json_loads ''not json'' = Inl dm"
  then show "async_get_data json_loads host endpoint
          (Response \<lparr>resp_status = 200, resp_reason = rs, resp_content_type = ct,
                     resp_text = Inr ''not json''\<rparr>)
        = Inl (Exn GaiaStationApiError
                 (''Invalid JSON response from http://'' @ host @ endpoint @ '': '' @ dm) 0)"
    by (simp add: async_get_data_def request_status_ok decode_not_json isinstance_eval)
next
  show "issubclass GaiaStationConnectionError GaiaStationApiError"
    by (simp add: isinstance_eval)
next
  show "issubclass GaiaStationTimeoutError GaiaStationApiError"
    by (simp add: isinstance_eval)
qed

text \<open>The four cases of C4 at concrete exceptions and responses.\<close>

theorem async_get_data_taxonomy_witness:
  "async_get_data sample_loads ''gaia.local'' ''/realtime/''
     (Response \<lparr>resp_status = 404, resp_reason = ''Not Found'', resp_content_type = ''text/html'',
                resp_text = Inr []\<rparr>)
     = Inl (Exn GaiaStationApiError ''HTTP 404 error from http://gaia.local/realtime/'' 0)
   \<and> async_get_data sample_loads ''gaia.local'' ''/realtime/''
       (GetRaised (Exn ClientConnectorError ''Connect call failed'' 0))
     = Inl (Exn GaiaStationConnectionError ''Cannot connect to gaia.local: Connect call failed'' 0)
   \<and> async_get_data sample_loads ''gaia.local'' ''/realtime/'' (GetRaised (Exn TimeoutError [] 0))
     = Inl (Exn GaiaStationTimeoutError ''Timeout connecting to gaia.local'' 0)
   \<and> sample_loads ''not json'' = Inl ''Expecting value: line 1 column 1 (char 0)''
   \<and> async_get_data sample_loads ''gaia.local'' ''/realtime/''
       (Response \<lparr>resp_status = 200, resp_reason = ''Not Found'', resp_content_type = ''text/html'',
                  resp_text = Inr ''not json''\<rparr>)
     = Inl (Exn GaiaStationApiError
         ''Invalid JSON response from http://gaia.local/realtime/: Expecting value: line 1 column 1 (char 0)'' 0)"
proof -
  have l: "sample_loads ''not json'' = Inl ''Expecting value: line 1 column 1 (char 0)''"
    by (simp add: sample_loads_def PMS_NUMBER_BODY_def)
  show ?thesis
    using l async_get_data_taxonomy [of sample_loads "''gaia.local''" "''/realtime/''"
        "''Not Found''" "''text/html''" "Inr []" "''Connect call failed''" 0
        "''Expecting value: line 1 column 1 (char 0)''"]
      async_get_data_taxonomy [of sample_loads "''gaia.local''" "''/realtime/''"
        "''Not Found''" "''text/html''" "Inr []" "[]" 0
        "''Expecting value: line 1 column 1 (char 0)''"]
    by simp
qed

subsection \<open>The update cycle\<close>

text \<open>
  A failed fetch leaves the coordinator as it was, and an error of the
  \<^verbatim>\<open>GaiaStationApiError\<close> family becomes \<^verbatim>\<open>UpdateFailed\<close> with the original text after the
  prefix \<^verbatim>\<open>Error communicating with API: \<close>.
\<close>

lemma async_update_data_fetch_failed:
  "async_get_realtime_data json_loads host tr = Inl err \<Longrightarrow>
   async_update_data json_loads host tr c = (Inl (update_handler err), c)"
  by (simp add: async_update_data_def)

lemma async_update_data_api_error:
  "async_get_realtime_data json_loads host tr = Inl err \<Longrightarrow> isinstance err GaiaStationApiError \<Longrightarrow>
   async_update_data json_loads host tr c =
     (Inl (Exn UpdateFailed (''Error communicating with API: '' @ exn_str err) 0), c)"
  by (simp add: async_update_data_def update_handler_def)

lemma async_update_data_fetched:
  "async_get_realtime_data json_loads host tr = Inr p \<Longrightarrow>
   async_update_data json_loads host tr c =
     (case flatten_data p of Inl err \<Rightarrow> Inl (update_handler err) | Inr flat \<Rightarrow> Inr flat,
      c\<lparr>raw_data := p\<rparr>)"
  by (simp add: async_update_data_def Let_def split: sum.splits)

lemma async_get_realtime_data_pms_number:
  "async_get_realtime_data sample_loads ''gaia.local''
     (Response \<lparr>resp_status = 200, resp_reason = ''OK'',
                resp_content_type = ''application/json'', resp_text = Inr PMS_NUMBER_BODY\<rparr>)
   = Inr [(''pms'', JInt 5)]"
  by (simp add: async_get_realtime_data_def async_get_data_def request_status_ok decode_object
        sample_loads_def PMS_NUMBER_BODY_def)

text \<open>
  Claim C5 says that whenever an update fails the stored raw payload is kept and the
  failure reaches the host as \<^verbatim>\<open>UpdateFailed\<close>, for every error of the cycle. When the
  device answers \<^verbatim>\<open>{"pms": 5}\<close> the fetch succeeds, \<^verbatim>\<open>raw_data\<close> is replaced by that payload,
  and the transform then raises \<^verbatim>\<open>AttributeError\<close>, which the handler for
  \<^verbatim>\<open>GaiaStationApiError\<close> does not catch.
\<close>

theorem async_update_data_pms_number:
  "async_update_data sample_loads ''gaia.local''
     (Response \<lparr>resp_status = 200, resp_reason = ''OK'',
                resp_content_type = ''application/json'', resp_text = Inr PMS_NUMBER_BODY\<rparr>)
     \<lparr>raw_data = [(''sys'', JDict [(''boot'', JInt 3)])],
      coordinator_data = Some [(''sys_boot'', JInt 3)]\<rparr>
   = (Inl (Exn AttributeError
             ([CHR 0x27] @ ''int'' @ [CHR 0x27] @ '' object has no attribute ''
                @ [CHR 0x27] @ ''items'' @ [CHR 0x27]) 0),
      \<lparr>raw_data = [(''pms'', JInt 5)], coordinator_data = Some [(''sys_boot'', JInt 3)]\<rparr>)"
  by (simp add: async_update_data_fetched [OF async_get_realtime_data_pms_number]
        flatten_data_def no_attribute_def update_handler_def isinstance_eval)

text \<open>
  The \<^verbatim>\<open>ValueError\<close> of a non-object body also passes the handler unchanged; here the
  raw payload is kept.
\<close>

lemma async_update_data_list_body:
  "async_update_data sample_loads ''gaia.local''
     (Response \<lparr>resp_status = 200, resp_reason = ''OK'',
                resp_content_type = ''application/json'', resp_text = Inr ''[1, 2]''\<rparr>) c
   = (Inl (Exn ValueError (''Expected dict, got <class '' @ [CHR 0x27] @ ''list'' @ [CHR 0x27] @ ''>'') 0),
      c)"
proof -
  have "async_get_realtime_data sample_loads ''gaia.local''
     (Response \<lparr>resp_status = 200, resp_reason = ''OK'',
                resp_content_type = ''application/json'', resp_text = Inr ''[1, 2]''\<rparr>)
     = Inl (Exn ValueError (''Expected dict, got <class '' @ [CHR 0x27] @ ''list'' @ [CHR 0x27] @ ''>'') 0)"
    by (simp add: async_get_realtime_data_def async_get_data_def request_status_ok
          decode_non_object [of _ _ "JList [JInt 1, JInt 2]"] sample_loads_def quoted_def
          isinstance_eval)
  then show ?thesis
    by (simp add: async_update_data_fetch_failed update_handler_def isinstance_eval)
qed


section \<open>Properties of the entity descriptor catalog\<close>

subsection \<open>Group discovery\<close>

text \<open>
  The set of discovered groups holds a candidate prefix exactly when some key of the flat
  map starts with the prefix and an underscore; sorted, it is the sublist of
  \<^verbatim>\<open>pms1\<close>, \<^verbatim>\<open>pms2\<close>, \<^verbatim>\<open>pms3\<close> with that property.
\<close>

lemma sorted_candidates: "sorted [''pms1'', ''pms2'', ''pms3''] \<and> distinct [''pms1'', ''pms2'', ''pms3'']"
  by simp

lemma upper_pms2: "upper ''pms2'' = ''PMS2''"
  by code_simp

lemma set_candidate_fold:
  "set (fold (candidate_step k) ps groups)
   = set groups \<union> {p \<in> set ps. startswith k (p @ ''_'')}"
  by (induction ps arbitrary: groups) (auto simp: candidate_step_def)

lemma distinct_candidate_fold:
  "distinct groups \<Longrightarrow> distinct (fold (candidate_step k) ps groups)"
  by (induction ps arbitrary: groups) (simp_all add: candidate_step_def)

lemma set_discover_fold:
  "set (fold discover_step ks groups)
   = set groups \<union> {p \<in> set PREFIX_CANDIDATES. \<exists>k \<in> set ks. startswith k (p @ ''_'')}"
  by (induction ks arbitrary: groups) (auto simp: discover_step_def set_candidate_fold)

lemma distinct_discover_fold:
  "distinct groups \<Longrightarrow> distinct (fold discover_step ks groups)"
  by (induction ks arbitrary: groups) (simp_all add: discover_step_def distinct_candidate_fold)

lemma set_discovered_groups:
  "set (discovered_groups flat)
   = {p \<in> set PREFIX_CANDIDATES. \<exists>k \<in> set (map fst flat). startswith k (p @ ''_'')}"
  by (simp add: discovered_groups_def set_discover_fold)

lemma distinct_discovered_groups: "distinct (discovered_groups flat)"
  by (simp add: discovered_groups_def distinct_discover_fold)

lemma sort_discovered_groups:
  "sort (discovered_groups flat)
   = filter (\<lambda>g. \<exists>k \<in> set (map fst flat). startswith k (g @ ''_'')) [''pms1'', ''pms2'', ''pms3'']"
proof (rule sorted_distinct_set_unique)
  show "sorted (sort (discovered_groups flat))" by simp
  show "distinct (sort (discovered_groups flat))" by (simp add: distinct_discovered_groups)
  show "sorted (filter (\<lambda>g. \<exists>k \<in> set (map fst flat). startswith k (g @ ''_'')) [''pms1'', ''pms2'', ''pms3''])"
    using sorted_filter [of "\<lambda>x. x" "[''pms1'', ''pms2'', ''pms3'']"] sorted_candidates by simp
  show "distinct (filter (\<lambda>g. \<exists>k \<in> set (map fst flat). startswith k (g @ ''_'')) [''pms1'', ''pms2'', ''pms3''])"
    by (rule distinct_filter) simp
  show "set (sort (discovered_groups flat))
        = set (filter (\<lambda>g. \<exists>k \<in> set (map fst flat). startswith k (g @ ''_'')) [''pms1'', ''pms2'', ''pms3''])"
    by (simp only: set_sort set_discovered_groups PREFIX_CANDIDATES_def set_filter)
qed

subsection \<open>The keys of the synthesized descriptors\<close>

lemma map_key_channel_sensors:
  "map key (channel_sensors flat g (pm_key, pm_label, dc, ic))
   = filter (has_key flat)
       (map (\<lambda>stat. g @ ''_'' @ pm_key @ ''_'' @ stat) [''latest'', ''mean'', ''min'', ''max'', ''median''])"
  by (simp add: channel_sensors_def pms_description_def Let_def)

lemma map_key_group_sensors:
  "map key (group_sensors flat g) = filter (has_key flat) (spec_group_keys g)"
  unfolding group_sensors_def spec_group_keys_def pm_configs_def
  by (simp only: map_concat filter_concat list.map map_key_channel_sensors comp_def)

lemma spec_group_keys_startswith:
  "k \<in> set (spec_group_keys g) \<Longrightarrow> startswith k (g @ ''_'')"
  by (auto simp: spec_group_keys_def startswith_def)

lemma undiscovered_no_keys:
  assumes "\<not> (\<exists>k \<in> set (map fst flat). startswith k (g @ ''_''))"
  shows "filter (has_key flat) (spec_group_keys g) = []"
proof -
  have "\<not> has_key flat k" if "k \<in> set (spec_group_keys g)" for k
    using assms spec_group_keys_startswith [OF that] by (auto simp: has_key_def)
  then show ?thesis by (simp add: filter_empty_conv)
qed

lemma map_key_build_dynamic_pms_sensors:
  "map key (build_dynamic_pms_sensors flat) = spec_dynamic_keys flat"
proof -
  let ?P = "\<lambda>g. \<exists>k \<in> set (map fst flat). startswith k (g @ ''_'')"
  let ?F = "\<lambda>g. filter (has_key flat) (spec_group_keys g)"
  have skip: "(if ?P g then ?F g else []) = ?F g" for g
    using undiscovered_no_keys [of flat g] by simp
  have "map key (build_dynamic_pms_sensors flat)
        = concat (map ?F (filter ?P [''pms1'', ''pms2'', ''pms3'']))"
    by (simp only: build_dynamic_pms_sensors_def sort_discovered_groups map_concat map_map
          comp_def map_key_group_sensors)
  also have "\<dots> = (if ?P ''pms1'' then ?F ''pms1'' else [])
                  @ (if ?P ''pms2'' then ?F ''pms2'' else [])
                  @ (if ?P ''pms3'' then ?F ''pms3'' else [])"
    by simp
  also have "\<dots> = ?F ''pms1'' @ ?F ''pms2'' @ ?F ''pms3''"
    by (simp only: skip)
  also have "\<dots> = spec_dynamic_keys flat"
    by (simp add: spec_dynamic_keys_def)
  finally show ?thesis .
qed

lemma build_dynamic_pms_sensors_has_key:
  "d \<in> set (build_dynamic_pms_sensors flat) \<Longrightarrow> has_key flat (key d)"
proof -
  assume "d \<in> set (build_dynamic_pms_sensors flat)"
  then have "key d \<in> set (map key (build_dynamic_pms_sensors flat))" by simp
  then show ?thesis
    by (auto simp: map_key_build_dynamic_pms_sensors spec_dynamic_keys_def)
qed

lemma only_pms2_pm10_min:
  assumes "has_key flat ''pms2_pm10_min''"
    and "\<forall>k \<in> set (map fst flat).
           startswith k ''pms1_'' \<or> startswith k ''pms2_'' \<or> startswith k ''pms3_''
           \<longrightarrow> k = ''pms2_pm10_min''"
  shows "\<not> (\<exists>k \<in> set (map fst flat). startswith k ''pms1_'')"
    and "\<exists>k \<in> set (map fst flat). startswith k ''pms2_''"
    and "\<not> (\<exists>k \<in> set (map fst flat). startswith k ''pms3_'')"
    and "\<And>k. startswith k ''pms2_'' \<Longrightarrow> has_key flat k = (k = ''pms2_pm10_min'')"
proof -
  show "\<not> (\<exists>k \<in> set (map fst flat). startswith k ''pms1_'')"
  proof
    assume "\<exists>k \<in> set (map fst flat). startswith k ''pms1_''"
    then obtain k where "k \<in> set (map fst flat)" "startswith k ''pms1_''" by blast
    with assms(2) have "startswith ''pms2_pm10_min'' ''pms1_''" by blast
    then show False by (simp add: startswith_def)
  qed
  show "\<not> (\<exists>k \<in> set (map fst flat). startswith k ''pms3_'')"
  proof
    assume "\<exists>k \<in> set (map fst flat). startswith k ''pms3_''"
    then obtain k where "k \<in> set (map fst flat)" "startswith k ''pms3_''" by blast
    with assms(2) have "startswith ''pms2_pm10_min'' ''pms3_''" by blast
    then show False by (simp add: startswith_def)
  qed
  have "startswith ''pms2_pm10_min'' ''pms2_''" by (simp add: startswith_def)
  with assms(1) show "\<exists>k \<in> set (map fst flat). startswith k ''pms2_''"
    unfolding has_key_def by blast
  show "has_key flat k = (k = ''pms2_pm10_min'')" if "startswith k ''pms2_''" for k
    using assms that unfolding has_key_def by blast
qed

lemma group_sensors_pms2_pm10_min:
  assumes "\<And>k. startswith k ''pms2_'' \<Longrightarrow> has_key flat k = (k = ''pms2_pm10_min'')"
  shows "group_sensors flat ''pms2''
         = [pms_description ''pms2_pm10_min'' ''PMS2 PM10 Min'' PM10 ''mdi:blur-radial'']"
  by (simp add: group_sensors_def pm_configs_def channel_sensors_def Let_def assms
        startswith_def upper_pms2)

text \<open>
  Claim C6. Discovery considers exactly the prefixes \<^verbatim>\<open>pms1\<close>, \<^verbatim>\<open>pms2\<close>, \<^verbatim>\<open>pms3\<close>, in sorted
  order, a group being discovered when a key starts with its prefix; the keys of the
  descriptors built are the candidate keys present in the flat map, each once, in the
  order of the groups, channels and stat fields. When \<^verbatim>\<open>pms2_pm10_min\<close> is a key and no
  other key starts with \<^verbatim>\<open>pms1_\<close>, \<^verbatim>\<open>pms2_\<close> or \<^verbatim>\<open>pms3_\<close>, the one group \<^verbatim>\<open>pms2\<close> is
  discovered and the one descriptor for \<^verbatim>\<open>pms2_pm10_min\<close> is built.
\<close>

theorem build_dynamic_pms_sensors_discovery:
  "sort (discovered_groups flat)
     = filter (\<lambda>g. \<exists>k \<in> set (map fst flat). startswith k (g @ ''_'')) [''pms1'', ''pms2'', ''pms3'']
   \<and> map key (build_dynamic_pms_sensors flat) = spec_dynamic_keys flat
   \<and> (has_key flat ''pms2_pm10_min''
      \<and> (\<forall>k \<in> set (map fst flat).
            startswith k ''pms1_'' \<or> startswith k ''pms2_'' \<or> startswith k ''pms3_''
            \<longrightarrow> k = ''pms2_pm10_min'')
      \<longrightarrow> sort (discovered_groups flat) = [''pms2'']
        \<and> build_dynamic_pms_sensors flat
          = [\<lparr>key = ''pms2_pm10_min'', name = ''PMS2 PM10 Min'',
              native_unit_of_measurement = Some CONCENTRATION_MICROGRAMS_PER_CUBIC_METER,
              device_class = Some PM10, state_class = Some MEASUREMENT,
              icon = ''mdi:blur-radial'', entity_registry_enabled_default = True,
              entity_category = None\<rparr>])"
proof (intro conjI impI)
  show "sort (discovered_groups flat)
     = filter (\<lambda>g. \<exists>k \<in> set (map fst flat). startswith k (g @ ''_'')) [''pms1'', ''pms2'', ''pms3'']"
    by (rule sort_discovered_groups)
  show "map key (build_dynamic_pms_sensors flat) = spec_dynamic_keys flat"
    by (rule map_key_build_dynamic_pms_sensors)
next
  assume a: "has_key flat ''pms2_pm10_min''
      \<and> (\<forall>k \<in> set (map fst flat).
            startswith k ''pms1_'' \<or> startswith k ''pms2_'' \<or> startswith k ''pms3_''
            \<longrightarrow> k = ''pms2_pm10_min'')"
  note only = only_pms2_pm10_min [OF conjunct1 [OF a] conjunct2 [OF a]]
  show groups: "sort (discovered_groups flat) = [''pms2'']"
    using only(1,2,3) by (simp add: sort_discovered_groups)
  show "build_dynamic_pms_sensors flat
          = [\<lparr>key = ''pms2_pm10_min'', name = ''PMS2 PM10 Min'',
              native_unit_of_measurement = Some CONCENTRATION_MICROGRAMS_PER_CUBIC_METER,
              device_class = Some PM10, state_class = Some MEASUREMENT,
              icon = ''mdi:blur-radial'', entity_registry_enabled_default = True,
              entity_category = None\<rparr>]"
    by (simp add: build_dynamic_pms_sensors_def groups group_sensors_pms2_pm10_min [OF only(4)]
          pms_description_def)
qed

text \<open>A flat map with \<^verbatim>\<open>pms2_pm10_min\<close> and a system key.\<close>

theorem build_dynamic_pms_sensors_discovery_witness:
  "sort (discovered_groups [(''pms2_pm10_min'', JInt 7), (''sys_boot'', JInt 3)]) = [''pms2'']
   \<and> build_dynamic_pms_sensors [(''pms2_pm10_min'', JInt 7), (''sys_boot'', JInt 3)]
     = [\<lparr>key = ''pms2_pm10_min'', name = ''PMS2 PM10 Min'',
         native_unit_of_measurement = Some CONCENTRATION_MICROGRAMS_PER_CUBIC_METER,
         device_class = Some PM10, state_class = Some MEASUREMENT,
         icon = ''mdi:blur-radial'', entity_registry_enabled_default = True,
         entity_category = None\<rparr>]
   \<and> map key (build_dynamic_pms_sensors [(''pms2_pm10_min'', JInt 7), (''sys_boot'', JInt 3)])
     = [''pms2_pm10_min'']"
  using build_dynamic_pms_sensors_discovery [of "[(''pms2_pm10_min'', JInt 7), (''sys_boot'', JInt 3)]"]
  by (simp add: has_key_def startswith_def)

subsection \<open>Entity setup\<close>

text \<open>
  No key of the static catalog is a candidate key of the dynamic pass, the keys of the
  catalog are pairwise different, and every entity that setup creates has its key in the
  flat map.
\<close>

lemma static_keys_not_dynamic:
  "d \<in> set ALL_STATIC_SENSORS \<Longrightarrow>
   key d \<notin> set (concat (map spec_group_keys [''pms1'', ''pms2'', ''pms3'']))"
proof -
  assume "d \<in> set ALL_STATIC_SENSORS"
  then have "hd (key d) \<noteq> CHR ''p''"
    by (auto simp: ALL_STATIC_SENSORS_def ROLLING_PM_SENSORS_def CO2_SENSORS_def
          MET_SENSORS_def SYSTEM_SENSORS_def)
  moreover have "hd k = CHR ''p''"
    if "k \<in> set (concat (map spec_group_keys [''pms1'', ''pms2'', ''pms3'']))" for k
    using that by (auto simp: spec_group_keys_def)
  ultimately show ?thesis by blast
qed

lemma distinct_ALL_STATIC_SENSORS: "distinct (map key ALL_STATIC_SENSORS)"
  by (simp add: ALL_STATIC_SENSORS_def ROLLING_PM_SENSORS_def CO2_SENSORS_def
        MET_SENSORS_def SYSTEM_SENSORS_def)

lemma GaiaStationSensor_eq [simp]:
  "(GaiaStationSensor d entry = GaiaStationSensor d' entry) = (d = d')"
  by (auto simp: GaiaStationSensor_def)

lemma entity_key_present:
  "s \<in> set (async_setup_entry c entry) \<Longrightarrow> has_key (setup_data c) (key (entity_description s))"
  by (auto simp: async_setup_entry_def Let_def GaiaStationSensor_def
        build_dynamic_pms_sensors_has_key)

lemma static_not_dynamic:
  "d \<in> set ALL_STATIC_SENSORS \<Longrightarrow> d \<notin> set (build_dynamic_pms_sensors flat)"
proof
  assume d: "d \<in> set ALL_STATIC_SENSORS" and "d \<in> set (build_dynamic_pms_sensors flat)"
  then have "key d \<in> set (map key (build_dynamic_pms_sensors flat))" by simp
  then have "key d \<in> set (concat (map spec_group_keys [''pms1'', ''pms2'', ''pms3'']))"
    unfolding map_key_build_dynamic_pms_sensors spec_dynamic_keys_def by auto
  with static_keys_not_dynamic [OF d] show False by blast
qed

lemma count_list_distinct:
  "distinct xs \<Longrightarrow> count_list xs x = (if x \<in> set xs then 1 else 0)"
  by (induction xs) auto

lemma count_static_entity:
  assumes "d \<in> set ALL_STATIC_SENSORS"
  shows "count_list (async_setup_entry c entry) (GaiaStationSensor d entry)
         = (if has_key (setup_data c) (key d) then 1 else 0)"
proof -
  let ?f = "\<lambda>d. GaiaStationSensor d entry"
  let ?flat = "setup_data c"
  let ?static = "filter (\<lambda>d. has_key ?flat (key d)) ALL_STATIC_SENSORS"
  have inj: "inj ?f" by (rule injI) simp
  have dist: "distinct ?static"
    using distinct_ALL_STATIC_SENSORS by (simp add: distinct_map)
  have "?f d \<notin> set (map ?f (build_dynamic_pms_sensors ?flat))"
    using static_not_dynamic [OF assms, of ?flat] by auto
  then have dyn: "count_list (map ?f (build_dynamic_pms_sensors ?flat)) (?f d) = 0"
    by (rule count_notin)
  have "count_list (map ?f ?static) (?f d) = count_list ?static d"
    using inj by (rule count_list_map_conv)
  also have "\<dots> = (if has_key ?flat (key d) then 1 else 0)"
    using dist assms by (simp add: count_list_distinct)
  finally show ?thesis
    using dyn by (simp add: async_setup_entry_def Let_def)
qed

text \<open>
  Claim C8. Setup is key-gated for the static catalog: for every descriptor of the
  catalog and every flat map present at setup, the entity of that descriptor is created
  if and only if the descriptor's key is a key of the flat map, and then once; when the
  key is absent, no entity with that key is created at all.
\<close>

theorem async_setup_entry_key_gated:
  "d \<in> set ALL_STATIC_SENSORS \<Longrightarrow>
     (GaiaStationSensor d entry \<in> set (async_setup_entry c entry)) = has_key (setup_data c) (key d)
     \<and> count_list (async_setup_entry c entry) (GaiaStationSensor d entry)
       = (if has_key (setup_data c) (key d) then 1 else 0)
     \<and> (\<not> has_key (setup_data c) (key d) \<longrightarrow>
          (\<forall>s \<in> set (async_setup_entry c entry). key (entity_description s) \<noteq> key d))"
proof (intro conjI impI ballI)
  assume d: "d \<in> set ALL_STATIC_SENSORS"
  show "(GaiaStationSensor d entry \<in> set (async_setup_entry c entry)) = has_key (setup_data c) (key d)"
  proof
    assume "GaiaStationSensor d entry \<in> set (async_setup_entry c entry)"
    from entity_key_present [OF this] show "has_key (setup_data c) (key d)"
      by (simp add: GaiaStationSensor_def)
  next
    assume "has_key (setup_data c) (key d)"
    with d show "GaiaStationSensor d entry \<in> set (async_setup_entry c entry)"
      by (simp add: async_setup_entry_def Let_def)
  qed
  show "count_list (async_setup_entry c entry) (GaiaStationSensor d entry)
       = (if has_key (setup_data c) (key d) then 1 else 0)"
    by (rule count_static_entity [OF d])
next
  fix s
  assume "\<not> has_key (setup_data c) (key d)" and "s \<in> set (async_setup_entry c entry)"
  then show "key (entity_description s) \<noteq> key d"
    using entity_key_present by metis
qed

text \<open>
  A flat map with the one key \<^verbatim>\<open>sys_vpwr\<close>: the supply voltage sensor is created, the
  temperature sensor is not.
\<close>

theorem async_setup_entry_key_gated_witness:
  "GaiaStationSensor (hd SYSTEM_SENSORS) \<lparr>entry_id = ''e1'', title = ''GAIA''\<rparr>
     \<in> set (async_setup_entry
              \<lparr>raw_data = [], coordinator_data = Some [(''sys_vpwr'', JInt 4900)]\<rparr>
              \<lparr>entry_id = ''e1'', title = ''GAIA''\<rparr>)
   \<and> GaiaStationSensor (hd MET_SENSORS) \<lparr>entry_id = ''e1'', title = ''GAIA''\<rparr>
     \<notin> set (async_setup_entry
              \<lparr>raw_data = [], coordinator_data = Some [(''sys_vpwr'', JInt 4900)]\<rparr>
              \<lparr>entry_id = ''e1'', title = ''GAIA''\<rparr>)"
proof -
  have a: "hd SYSTEM_SENSORS \<in> set ALL_STATIC_SENSORS" "hd MET_SENSORS \<in> set ALL_STATIC_SENSORS"
    by (simp_all add: ALL_STATIC_SENSORS_def SYSTEM_SENSORS_def MET_SENSORS_def)
  have k: "key (hd SYSTEM_SENSORS) = ''sys_vpwr''" "key (hd MET_SENSORS) = ''temperature_latest''"
    by (simp_all add: SYSTEM_SENSORS_def MET_SENSORS_def)
  show ?thesis
    using async_setup_entry_key_gated [OF a(1), of "\<lparr>entry_id = ''e1'', title = ''GAIA''\<rparr>"
        "\<lparr>raw_data = [], coordinator_data = Some [(''sys_vpwr'', JInt 4900)]\<rparr>"]
      async_setup_entry_key_gated [OF a(2), of "\<lparr>entry_id = ''e1'', title = ''GAIA''\<rparr>"
        "\<lparr>raw_data = [], coordinator_data = Some [(''sys_vpwr'', JInt 4900)]\<rparr>"]
    by (simp add: k has_key_def setup_data_def)
qed

end
